theory Spec2Isabelle
  imports Complex_Main "HOL-Library.Sublist"
begin

section \<open>Python values used by the notebooks\<close>

text \<open>
  The notebooks pass booleans, integers and strings as keyword arguments. A keyword
  argument list is an association list, in the order the call writes it.
\<close>

datatype pyval = PBool bool | PInt int | PStr string

datatype py_error = ValueError

type_synonym kwargs = "(string \<times> pyval) list"

subsection \<open>\<open>range(start, stop, step)\<close>\<close>

text \<open>
  Python's three-argument \<open>range\<close>: a zero step raises \<open>ValueError\<close>; a positive step
  counts up while the value is below \<open>stop\<close>, a negative step counts down while the value
  is above \<open>stop\<close>.
\<close>

function range_up :: "int \<Rightarrow> int \<Rightarrow> int \<Rightarrow> int list" where
  "range_up i stop step =
     (if 0 < step \<and> i < stop then i # range_up (i + step) stop step else [])"
  by pat_completeness auto
termination
  by (relation "measure (\<lambda>(i, stop, step). nat (stop - i))") auto

function range_down :: "int \<Rightarrow> int \<Rightarrow> int \<Rightarrow> int list" where
  "range_down i stop step =
     (if step < 0 \<and> stop < i then i # range_down (i + step) stop step else [])"
  by pat_completeness auto
termination
  by (relation "measure (\<lambda>(i, stop, step). nat (i - stop))") auto

definition py_range :: "int \<Rightarrow> int \<Rightarrow> int \<Rightarrow> py_error + int list" where
  "py_range start stop step =
     (if step = 0 then Inl ValueError
      else if 0 < step then Inr (range_up start stop step)
      else Inr (range_down start stop step))"

section \<open>quick-look notebook: building the worker processes\<close>

text \<open>
  \<^verbatim>\<open>
  processes = []
  for is_standardized in [True, False]:
      for n_components in range(1, 15, 2):
          processes.append(multiprocessing.Process(
              target=run_experiment, args=[project],
              kwargs={"is_standardized": is_standardized, "n_components": n_components}
          ))
  \<close>
  A \<open>Process\<close> object is the record of its constructor arguments. The project handle is
  a value of the client library, kept abstract as \<open>'p\<close>.
\<close>

record 'p process =
  target :: string
  args :: "'p list"
  kwargs :: kwargs

definition Process :: "string \<Rightarrow> 'p list \<Rightarrow> kwargs \<Rightarrow> 'p process" where
  "Process t a k = \<lparr>target = t, args = a, kwargs = k\<rparr>"

definition append_process :: "'p \<Rightarrow> bool \<Rightarrow> 'p process list \<Rightarrow> int \<Rightarrow> 'p process list" where
  "append_process project is_standardized processes n_components =
     processes @
       [Process ''run_experiment'' [project]
          [(''is_standardized'', PBool is_standardized), (''n_components'', PInt n_components)]]"

definition inner_loop :: "'p \<Rightarrow> 'p process list \<Rightarrow> bool \<Rightarrow> py_error + 'p process list" where
  "inner_loop project processes is_standardized =
     (case py_range 1 15 2 of
        Inl e \<Rightarrow> Inl e
      | Inr ns \<Rightarrow> Inr (foldl (append_process project is_standardized) processes ns))"

fun outer_loop :: "'p \<Rightarrow> 'p process list \<Rightarrow> bool list \<Rightarrow> py_error + 'p process list" where
  "outer_loop project processes [] = Inr processes"
| "outer_loop project processes (b # bs) =
     (case inner_loop project processes b of
        Inl e \<Rightarrow> Inl e
      | Inr processes' \<Rightarrow> outer_loop project processes' bs)"

definition build_processes :: "'p \<Rightarrow> py_error + 'p process list" where
  "build_processes project = outer_loop project [] [True, False]"

text \<open>The configuration of a worker: the two keyword arguments it is started with.\<close>

definition config :: "'p process \<Rightarrow> pyval option \<times> pyval option" where
  "config p = (map_of (kwargs p) ''is_standardized'', map_of (kwargs p) ''n_components'')"

section \<open>quick-look notebook: starting and joining the workers\<close>

text \<open>
  \<^verbatim>\<open>
  for process in processes:
      process.start()

  for process in processes:
      process.join()
  \<close>
  The main process is sequential; its calls on the process objects are recorded, in
  program order, in a trace. Both calls are taken to return normally.
\<close>

datatype 'p event = Start "'p process" | Join "'p process"

fun is_Start :: "'p event \<Rightarrow> bool" where
  "is_Start (Start p) = True"
| "is_Start (Join p) = False"

fun is_Join :: "'p event \<Rightarrow> bool" where
  "is_Join (Start p) = False"
| "is_Join (Join p) = True"

definition start_all :: "'p event list \<Rightarrow> 'p process list \<Rightarrow> 'p event list" where
  "start_all tr processes = foldl (\<lambda>tr process. tr @ [Start process]) tr processes"

definition join_all :: "'p event list \<Rightarrow> 'p process list \<Rightarrow> 'p event list" where
  "join_all tr processes = foldl (\<lambda>tr process. tr @ [Join process]) tr processes"

definition start_join_cell :: "'p process list \<Rightarrow> 'p event list" where
  "start_join_cell processes = join_all (start_all [] processes) processes"

text \<open>The two cells in sequence: the list is built, then every worker started and joined.\<close>

definition main_trace :: "'p \<Rightarrow> py_error + 'p event list" where
  "main_trace project =
     (case build_processes project of
        Inl e \<Rightarrow> Inl e
      | Inr processes \<Rightarrow> Inr (start_join_cell processes))"

section \<open>Python floats\<close>

text \<open>
  A float is an IEEE binary64 value: a finite value \<open>m * 2 ^ e\<close>, an infinity or NaN.
  \<open>is_binary64\<close> bounds mantissa and exponent of the finite values. The literal \<open>.9\<close>
  denotes the binary64 value nearest to nine tenths, \<open>0x1.ccccccccccccdp-1\<close>.
\<close>

datatype pyfloat = Finite int int | PosInf | NegInf | NaN

definition float_val :: "int \<Rightarrow> int \<Rightarrow> rat" where
  "float_val m e = (if 0 \<le> e then of_int m * 2 ^ nat e else of_int m / 2 ^ nat (- e))"

definition is_binary64 :: "int \<Rightarrow> int \<Rightarrow> bool" where
  "is_binary64 m e \<longleftrightarrow> \<bar>m\<bar> < 2 ^ 53 \<and> - 1074 \<le> e \<and> e \<le> 971"

fun float_ge :: "pyfloat \<Rightarrow> pyfloat \<Rightarrow> bool" where
  "float_ge NaN y = False"
| "float_ge x NaN = False"
| "float_ge PosInf y = True"
| "float_ge x NegInf = True"
| "float_ge NegInf y = False"
| "float_ge x PosInf = False"
| "float_ge (Finite m e) (Finite m' e') = (float_val m' e' \<le> float_val m e)"

definition point_nine :: pyfloat where
  "point_nine = Finite 8106479329266893 (- 53)"

section \<open>quick-look notebook: \<open>run_experiment\<close>\<close>

text \<open>
  \<open>run_experiment\<close> computes nothing itself: it calls the tracking client and
  scikit-learn. Its behaviour is the sequence of calls it makes on the client, recorded
  in a trace in the order made, together with the exception that ended it, if any.
  What the external calls return is a parameter: the experiment handle returned by
  \<open>project.log_experiment\<close>, the outcome of \<open>classifier.fit\<close>, the prediction of the
  fitted pipeline, its accuracy score, the cross-tabulation, and \<open>wine.feature_names\<close>.

  \<open>classifier.fit\<close> either returns the fitted pipeline or raises: scikit-learn rejects
  an \<open>n_components\<close> that the data does not allow. Nothing catches the exception, so
  the invocation ends there, with the calls made so far. The calls on the client, and
  \<open>predict\<close>, \<open>accuracy_score\<close> and \<open>crosstab\<close> on a fitted pipeline, are taken to
  return normally.
\<close>

datatype stage = StandardScaler | PCA int | GaussianNB

record ('p, 'e, 'clf, 'pred, 'df) externals =
  feature_names :: "string list"
  log_experiment :: "'p \<Rightarrow> string \<Rightarrow> 'e"
  fit :: "stage list \<Rightarrow> py_error + 'clf"
  predict :: "'clf \<Rightarrow> 'pred"
  accuracy_score :: "'pred \<Rightarrow> pyfloat"
  crosstab :: "'pred \<Rightarrow> 'df"

datatype ('p, 'e, 'df) call =
    LogExperiment 'p string
  | LogParameter 'e string pyval
  | LogFeature 'e string
  | LogMetric 'e string pyfloat
  | LogDataframe 'e 'df "string list"
  | AddTags 'e "string list"

record ('p, 'e, 'df) outcome =
  calls :: "('p, 'e, 'df) call list"
  raised :: "py_error option"

definition make_pipeline :: "stage list \<Rightarrow> stage list" where
  "make_pipeline stages = stages"

definition run_experiment ::
  "('p, 'e, 'clf, 'pred, 'df) externals \<Rightarrow> 'p \<Rightarrow> bool \<Rightarrow> int \<Rightarrow> ('p, 'e, 'df) outcome" where
  "run_experiment ext project is_standardized n_components =
     (let experiment = log_experiment ext project ''GaussianNB'';
          tr = [LogExperiment project ''GaussianNB''];
          tr = tr @ [LogParameter experiment ''is_standardized'' (PBool is_standardized)];
          tr = tr @ [LogParameter experiment ''n_components'' (PInt n_components)];
          tr = foldl (\<lambda>tr name. tr @ [LogFeature experiment name]) tr (feature_names ext);
          classifier =
            (if is_standardized
             then make_pipeline [StandardScaler, PCA n_components, GaussianNB]
             else make_pipeline [PCA n_components, GaussianNB])
      in case fit ext classifier of
           Inl err \<Rightarrow> \<lparr>calls = tr, raised = Some err\<rparr>
         | Inr fitted \<Rightarrow>
             (let pred_test = predict ext fitted;
                  accuracy = accuracy_score ext pred_test;
                  tr = tr @ [LogMetric experiment ''accuracy'' accuracy];
                  confusion_matrix = crosstab ext pred_test;
                  tr = tr @ [LogDataframe experiment confusion_matrix [''confusion matrix'']]
              in if float_ge accuracy point_nine
                 then \<lparr>calls = tr @ [AddTags experiment [''success'']], raised = None\<rparr>
                 else \<lparr>calls = tr @ [AddTags experiment [''failure'']], raised = None\<rparr>))"

text \<open>Classifying the calls of a trace.\<close>

fun is_LogExperiment :: "('p, 'e, 'df) call \<Rightarrow> bool" where
  "is_LogExperiment (LogExperiment p m) = True"
| "is_LogExperiment c = False"

fun is_LogParameter :: "('p, 'e, 'df) call \<Rightarrow> bool" where
  "is_LogParameter (LogParameter x k v) = True"
| "is_LogParameter c = False"

fun is_LogFeature :: "('p, 'e, 'df) call \<Rightarrow> bool" where
  "is_LogFeature (LogFeature x k) = True"
| "is_LogFeature c = False"

fun is_LogMetric :: "('p, 'e, 'df) call \<Rightarrow> bool" where
  "is_LogMetric (LogMetric x k v) = True"
| "is_LogMetric c = False"

fun is_LogDataframe :: "('p, 'e, 'df) call \<Rightarrow> bool" where
  "is_LogDataframe (LogDataframe x d ts) = True"
| "is_LogDataframe c = False"

fun is_AddTags :: "('p, 'e, 'df) call \<Rightarrow> bool" where
  "is_AddTags (AddTags x ts) = True"
| "is_AddTags c = False"

text \<open>The pipeline a run fits, the accuracy and the cross-tabulation it computes, and the
  tags it adds.\<close>

definition classifier_of :: "bool \<Rightarrow> int \<Rightarrow> stage list" where
  "classifier_of is_standardized n_components =
     (if is_standardized
      then make_pipeline [StandardScaler, PCA n_components, GaussianNB]
      else make_pipeline [PCA n_components, GaussianNB])"

definition accuracy_of ::
  "('p, 'e, 'clf, 'pred, 'df) externals \<Rightarrow> bool \<Rightarrow> int \<Rightarrow> py_error + pyfloat" where
  "accuracy_of ext is_standardized n_components =
     (case fit ext (classifier_of is_standardized n_components) of
        Inl err \<Rightarrow> Inl err
      | Inr fitted \<Rightarrow> Inr (accuracy_score ext (predict ext fitted)))"

definition confusion_matrix_of ::
  "('p, 'e, 'clf, 'pred, 'df) externals \<Rightarrow> bool \<Rightarrow> int \<Rightarrow> py_error + 'df" where
  "confusion_matrix_of ext is_standardized n_components =
     (case fit ext (classifier_of is_standardized n_components) of
        Inl err \<Rightarrow> Inl err
      | Inr fitted \<Rightarrow> Inr (crosstab ext (predict ext fitted)))"

fun tags_of :: "('p, 'e, 'df) call \<Rightarrow> string list" where
  "tags_of (AddTags x ts) = ts"
| "tags_of c = []"

definition tags_added :: "('p, 'e, 'df) call list \<Rightarrow> string list" where
  "tags_added tr = concat (map tags_of tr)"

text \<open>The experiments a trace writes to: the target of every call on an experiment.\<close>

fun written_to :: "('p, 'e, 'df) call \<Rightarrow> 'e list" where
  "written_to (LogExperiment p m) = []"
| "written_to (LogParameter x k v) = [x]"
| "written_to (LogFeature x k) = [x]"
| "written_to (LogMetric x k v) = [x]"
| "written_to (LogDataframe x d ts) = [x]"
| "written_to (AddTags x ts) = [x]"

subsection \<open>An environment for concrete runs\<close>

text \<open>
  The notebook's data has 13 features. In this environment \<open>fit\<close> raises \<open>ValueError\<close>
  when the pipeline's \<open>PCA\<close> asks for fewer than 1 or more than 13 components, and
  otherwise returns; the accuracy of the prediction is a parameter, the project is the
  unit value and the experiment handle is a number.
\<close>

definition wine_feature_names :: "string list" where
  "wine_feature_names =
     [''alcohol'', ''malic_acid'', ''ash'', ''alcalinity_of_ash'', ''magnesium'',
      ''total_phenols'', ''flavanoids'', ''nonflavanoid_phenols'', ''proanthocyanins'',
      ''color_intensity'', ''hue'', ''od280/od315_of_diluted_wines'', ''proline'']"

fun stage_fits :: "stage \<Rightarrow> bool" where
  "stage_fits (PCA k) = (1 \<le> k \<and> k \<le> 13)"
| "stage_fits s = True"

definition wine_externals :: "pyfloat \<Rightarrow> (unit, nat, stage list, stage list, unit) externals" where
  "wine_externals acc =
     \<lparr>feature_names = wine_feature_names,
      log_experiment = (\<lambda>project model_name. 0),
      fit = (\<lambda>classifier. if list_all stage_fits classifier then Inr classifier
                           else Inl ValueError),
      predict = (\<lambda>fitted. fitted),
      accuracy_score = (\<lambda>pred. acc),
      crosstab = (\<lambda>pred. ())\<rparr>"

section \<open>quick-look notebook: publishing and consuming the catalog\<close>

text \<open>
  \<^verbatim>\<open>
  rubicon_s3.publish(project_s3.name, experiment_tags=["success"],
                     output_filepath="./wine_catalog.yml")
  ! ls -l wine_catalog.yml
  ! cat wine_catalog.yml
  \<close>
  and, in a later cell,
  \<^verbatim>\<open>
  catalog = intake.open_catalog("./wine_catalog.yml")
  \<close>
  The file system is a map from the path a call names to the content stored there. The
  content of a catalog is kept abstract as \<open>'c\<close>: it is what the client renders for the
  project and the experiment tags.
\<close>

type_synonym 'c filesystem = "string \<rightharpoonup> 'c"

text \<open>
  Modelled from the spec: the body of the client's \<open>publish\<close> is not among the supplied
  files. The spec says of it that \<open>publish(...)\<close> produces a single YAML catalog file,
  intended to be consumed by a third-party cataloging library via \<open>open_catalog\<close>. So
  \<open>publish\<close> stores the one catalog at \<open>output_filepath\<close> and touches no other file.
\<close>

definition publish :: "'c \<Rightarrow> string \<Rightarrow> 'c filesystem \<Rightarrow> 'c filesystem" where
  "publish catalog output_filepath fs = fs(output_filepath \<mapsto> catalog)"

text \<open>The third-party consumer reads the file at the path it is given, if there is one.\<close>

definition open_catalog :: "'c filesystem \<Rightarrow> string \<Rightarrow> 'c option" where
  "open_catalog fs path = fs path"

text \<open>The shell commands \<open>ls -l\<close> and \<open>cat\<close> only read.\<close>

definition shell_ls :: "'c filesystem \<Rightarrow> string \<Rightarrow> 'c filesystem" where
  "shell_ls fs path = fs"

definition shell_cat :: "'c filesystem \<Rightarrow> string \<Rightarrow> 'c filesystem" where
  "shell_cat fs path = fs"

definition publish_output_filepath :: string where
  "publish_output_filepath = ''./wine_catalog.yml''"

definition open_catalog_path :: string where
  "open_catalog_path = ''./wine_catalog.yml''"

definition publish_cell :: "'c \<Rightarrow> 'c filesystem \<Rightarrow> 'c filesystem" where
  "publish_cell catalog fs =
     (let fs = publish catalog publish_output_filepath fs;
          fs = shell_ls fs ''wine_catalog.yml'';
          fs = shell_cat fs ''wine_catalog.yml''
      in fs)"

definition consume_cell :: "'c filesystem \<Rightarrow> 'c option" where
  "consume_cell fs = open_catalog fs open_catalog_path"

section \<open>Instantiations of the client in the notebooks\<close>

text \<open>
  A keyword argument is a literal or a variable assigned earlier in the notebook; the
  call site is recorded with the assignments in force.
  \<^verbatim>\<open>
  root_dir = "./rubicon-root"
  rubicon = Rubicon(persistence="filesystem", root_dir=root_dir)          # quick-look
  s3_path = "s3://my-bucket/path/to/rubicon-root"
  rubicon_s3 = Rubicon(persistence="filesystem", root_dir=s3_path)        # quick-look
  rubicon = Rubicon(persistence="memory", auto_git_enabled=True)          # git-integration
  \<close>
  The quick-look notebook also shows one instantiation in its prose:
  \<^verbatim>\<open>
  rubicon = Rubicon(persistence="filesystem", root_dir="s3://my-bucket/path/to/rubicon-root")
  \<close>
\<close>

datatype expr = Lit pyval | Var string

type_synonym env = "(string \<times> pyval) list"

fun eval_expr :: "env \<Rightarrow> expr \<Rightarrow> pyval option" where
  "eval_expr env (Lit v) = Some v"
| "eval_expr env (Var x) = map_of env x"

record client_call =
  assignments :: env
  kw_args :: "(string \<times> expr) list"

definition argument :: "client_call \<Rightarrow> string \<Rightarrow> pyval option option" where
  "argument inst k = map_option (eval_expr (assignments inst)) (map_of (kw_args inst) k)"

definition quick_look_local :: client_call where
  "quick_look_local =
     \<lparr>assignments = [(''root_dir'', PStr ''./rubicon-root'')],
      kw_args = [(''persistence'', Lit (PStr ''filesystem'')), (''root_dir'', Var ''root_dir'')]\<rparr>"

definition quick_look_s3 :: client_call where
  "quick_look_s3 =
     \<lparr>assignments = [(''root_dir'', PStr ''./rubicon-root''),
                     (''s3_path'', PStr ''s3://my-bucket/path/to/rubicon-root'')],
      kw_args = [(''persistence'', Lit (PStr ''filesystem'')), (''root_dir'', Var ''s3_path'')]\<rparr>"

definition git_integration_memory :: client_call where
  "git_integration_memory =
     \<lparr>assignments = [],
      kw_args = [(''persistence'', Lit (PStr ''memory'')),
                  (''auto_git_enabled'', Lit (PBool True))]\<rparr>"

definition quick_look_prose :: client_call where
  "quick_look_prose =
     \<lparr>assignments = [],
      kw_args = [(''persistence'', Lit (PStr ''filesystem'')),
                  (''root_dir'', Lit (PStr ''s3://my-bucket/path/to/rubicon-root''))]\<rparr>"

definition rubicon_instantiations :: "client_call list" where
  "rubicon_instantiations =
     [quick_look_local, quick_look_s3, git_integration_memory, quick_look_prose]"

text \<open>
  The configuration surface: an \<open>s3://\<close> URI starts with that scheme; a local path is a
  non-empty string that names no URI scheme at all (it has no \<open>://\<close>).
\<close>

fun has_scheme :: "string \<Rightarrow> bool" where
  "has_scheme [] = False"
| "has_scheme (c # cs) = (prefix ''://'' (c # cs) \<or> has_scheme cs)"

definition is_s3_uri :: "string \<Rightarrow> bool" where
  "is_s3_uri s = prefix ''s3://'' s"

definition is_local_path :: "string \<Rightarrow> bool" where
  "is_local_path s = (s \<noteq> [] \<and> \<not> has_scheme s)"

definition persistence_ok :: "client_call \<Rightarrow> bool" where
  "persistence_ok inst =
     (case argument inst ''persistence'' of
        Some (Some (PStr s)) \<Rightarrow> s = ''filesystem'' \<or> s = ''memory''
      | _ \<Rightarrow> False)"

definition root_dir_ok :: "client_call \<Rightarrow> bool" where
  "root_dir_ok inst =
     (case argument inst ''root_dir'' of
        None \<Rightarrow> True
      | Some (Some (PStr s)) \<Rightarrow> is_local_path s \<or> is_s3_uri s
      | _ \<Rightarrow> False)"

definition auto_git_enabled_ok :: "client_call \<Rightarrow> bool" where
  "auto_git_enabled_ok inst =
     (case argument inst ''auto_git_enabled'' of
        None \<Rightarrow> True
      | Some (Some (PBool b)) \<Rightarrow> True
      | _ \<Rightarrow> False)"

section \<open>The documentation workflow\<close>

text \<open>
  The workflow file is data: its \<open>on\<close> mapping and its one job with six steps. A step has
  an optional name, either \<open>uses\<close> (an action, with its \<open>with\<close> arguments) or \<open>run\<close>
  (the lines of a script) and an optional shell. Scalars are kept as the strings the file
  writes.
\<close>

record step =
  step_name :: "string option"
  step_uses :: "string option"
  step_with :: "(string \<times> string) list"
  step_run :: "string list"
  step_shell :: "string option"

record job =
  runs_on :: string
  steps :: "step list"

record workflow =
  wf_name :: string
  wf_on :: "(string \<times> string list option) list"
  jobs :: "(string \<times> job) list"

definition no_step :: step where
  "no_step = \<lparr>step_name = None, step_uses = None, step_with = [], step_run = [],
               step_shell = None\<rparr>"

definition build_and_deploy :: job where
  "build_and_deploy =
     \<lparr>runs_on = ''ubuntu-latest'',
      steps =
        [no_step\<lparr>step_uses := Some ''actions/checkout@v2'',
                 step_with := [(''fetch-depth'', ''0'')]\<rparr>,
         no_step\<lparr>step_name := Some ''Set up Python'',
                 step_uses := Some ''actions/setup-python@v2'',
                 step_with := [(''python-version'', ''3.8'')]\<rparr>,
         no_step\<lparr>step_name := Some ''Add conda to system path'',
                 step_run :=
                   [''# $CONDA is an environment variable pointing to the root of the miniconda directory'',
                    ''echo $CONDA/bin >> $GITHUB_PATH'']\<rparr>,
         no_step\<lparr>step_name := Some ''Install dependencies'',
                 step_run :=
                   [''conda env update --file docs/docs-environment.yml --name base'']\<rparr>,
         no_step\<lparr>step_name := Some ''Build'',
                 step_run := [''cd docs'', ''bash build-docs.sh''],
                 step_shell := Some ''bash''\<rparr>,
         no_step\<lparr>step_name := Some ''Publish'',
                 step_uses := Some ''JamesIves/github-pages-deploy-action@4.0.0'',
                 step_with := [(''branch'', ''gh-pages''), (''folder'', ''docs/build/html'')]\<rparr>]\<rparr>"

definition publish_docs :: workflow where
  "publish_docs =
     \<lparr>wf_name = ''Publish docs'',
      wf_on = [(''release'', Some [''created'']), (''workflow_dispatch'', None)],
      jobs = [(''build-and-deploy'', build_and_deploy)]\<rparr>"

text \<open>
  How the hosting service reads \<open>on\<close>: an event, given by its name and (for events that
  have them) its activity type, starts the workflow when the name is a key of \<open>on\<close> and,
  where the entry lists \<open>types\<close>, the activity type is among them.
\<close>

definition triggered :: "workflow \<Rightarrow> string \<Rightarrow> string option \<Rightarrow> bool" where
  "triggered w ev activity =
     (case map_of (wf_on w) ev of
        None \<Rightarrow> False
      | Some None \<Rightarrow> True
      | Some (Some types) \<Rightarrow> (case activity of None \<Rightarrow> False | Some a \<Rightarrow> a \<in> set types))"

text \<open>The position of the first step with a given name.\<close>

fun step_index :: "string \<Rightarrow> step list \<Rightarrow> nat option" where
  "step_index n [] = None"
| "step_index n (s # ss) =
     (if step_name s = Some n then Some 0 else map_option Suc (step_index n ss))"

text \<open>The name of an action is what precedes the version tag after \<open>@\<close>.\<close>

definition action_name :: "string \<Rightarrow> string" where
  "action_name u = takeWhile (\<lambda>c. c \<noteq> CHR ''@'') u"

subsection \<open>Running the lines of a \<open>run\<close> script\<close>

text \<open>
  A script runs line by line from the root of the checked-out repository. The model
  tracks the working directory, as path components below that root (\<open>None\<close> once a
  \<open>cd\<close> leaves it or gives no relative path), and records every other command with the
  directory it is run in. A line starting with \<open>#\<close> is a comment.
\<close>

fun split_on :: "char \<Rightarrow> string \<Rightarrow> string list" where
  "split_on c [] = [[]]"
| "split_on c (x # xs) =
     (if x = c then [] # split_on c xs
      else (case split_on c xs of [] \<Rightarrow> [[x]] | w # ws \<Rightarrow> (x # w) # ws))"

definition words :: "string \<Rightarrow> string list" where
  "words line = filter (\<lambda>w. w \<noteq> []) (split_on CHR '' '' line)"

fun chdir_component :: "string list option \<Rightarrow> string \<Rightarrow> string list option" where
  "chdir_component None c = None"
| "chdir_component (Some p) c =
     (if c = [] \<or> c = ''.'' then Some p
      else if c = ''..'' then (if p = [] then None else Some (butlast p))
      else Some (p @ [c]))"

definition chdir :: "string list option \<Rightarrow> string \<Rightarrow> string list option" where
  "chdir cwd d =
     (if d = [] \<or> hd d = CHR ''/'' then None
      else foldl chdir_component cwd (split_on CHR ''/'' d))"

record shell_state =
  cwd :: "string list option"
  invoked :: "(string list option \<times> string list) list"

definition exec_line :: "shell_state \<Rightarrow> string \<Rightarrow> shell_state" where
  "exec_line st line =
     (case words line of
        [] \<Rightarrow> st
      | cmd # argv \<Rightarrow>
          if hd cmd = CHR ''#'' then st
          else if cmd = ''cd'' then
            (case argv of
               [] \<Rightarrow> st\<lparr>cwd := None\<rparr>
             | d # _ \<Rightarrow> st\<lparr>cwd := chdir (cwd st) d\<rparr>)
          else st\<lparr>invoked := invoked st @ [(cwd st, cmd # argv)]\<rparr>)"

definition run_script :: "string list \<Rightarrow> shell_state" where
  "run_script ls = foldl exec_line \<lparr>cwd = Some [], invoked = []\<rparr> ls"

section \<open>Theorems\<close>

lemma range_1_15_2: "py_range 1 15 2 = Inr [1, 3, 5, 7, 9, 11, 13]"
  by (simp add: py_range_def)

lemma inner_loop_eq:
  "inner_loop project ps b =
     Inr (ps @ map (\<lambda>n. Process ''run_experiment'' [project]
                     [(''is_standardized'', PBool b), (''n_components'', PInt n)])
               [1, 3, 5, 7, 9, 11, 13])"
  by (simp add: inner_loop_def range_1_15_2 append_process_def)

text \<open>
  C2: the construction loop over \<open>is_standardized\<close> in \<open>[True, False]\<close> and
  \<open>n_components\<close> in \<open>range(1, 15, 2)\<close> returns normally with exactly 14 processes, every
  one targeting \<open>run_experiment\<close> on the project, and the 14 configurations
  \<open>(is_standardized, n_components)\<close> are pairwise distinct: they are the 7 odd numbers
  1..13 under \<open>True\<close>, followed by the same 7 under \<open>False\<close>.
\<close>

theorem build_processes_fourteen_distinct:
  "\<exists>ps. build_processes project = Inr ps
      \<and> length ps = 14
      \<and> distinct (map config ps)
      \<and> map config ps =
          map (\<lambda>n. (Some (PBool True), Some (PInt n))) [1, 3, 5, 7, 9, 11, 13] @
          map (\<lambda>n. (Some (PBool False), Some (PInt n))) [1, 3, 5, 7, 9, 11, 13]
      \<and> map target ps = replicate 14 ''run_experiment''
      \<and> map args ps = replicate 14 [project]"
  by (simp add: build_processes_def inner_loop_eq Process_def config_def numeral_eq_Suc)

subsection \<open>Starting and joining\<close>

lemma foldl_snoc_map: "foldl (\<lambda>tr x. tr @ [f x]) tr xs = tr @ map f xs"
  by (induction xs arbitrary: tr) simp_all

lemma start_join_cell_eq: "start_join_cell ps = map Start ps @ map Join ps"
  by (simp add: start_join_cell_def start_all_def join_all_def foldl_snoc_map)

lemma start_before_join:
  assumes "i < length (start_join_cell ps)" and "j < length (start_join_cell ps)"
    and "is_Start (start_join_cell ps ! i)" and "is_Join (start_join_cell ps ! j)"
  shows "i < length ps \<and> length ps \<le> j"
proof -
  have i: "i < length ps"
  proof (rule ccontr)
    assume "\<not> i < length ps"
    then have "start_join_cell ps ! i = Join (ps ! (i - length ps))"
      using assms(1) by (simp add: start_join_cell_eq nth_append)
    then show False using assms(3) by simp
  qed
  have j: "length ps \<le> j"
  proof (rule ccontr)
    assume "\<not> length ps \<le> j"
    then have "start_join_cell ps ! j = Start (ps ! j)"
      by (simp add: start_join_cell_eq nth_append)
    then show False using assms(4) by simp
  qed
  from i j show ?thesis by simp
qed

lemma build_processes_length:
  "\<exists>ps. build_processes project = Inr ps \<and> length ps = 14"
  by (simp add: build_processes_def inner_loop_eq)

text \<open>
  C4: the main process starts every one of the 14 workers and joins every one of them,
  once each and in list order, and every \<open>start\<close> call comes before every \<open>join\<close> call
  in its trace: the first 14 calls are the starts, the last 14 the joins, so no worker is
  joined before all workers have been started.
\<close>

theorem all_started_before_any_joined:
  "\<exists>ps tr. build_processes project = Inr ps \<and> main_trace project = Inr tr
      \<and> length ps = 14
      \<and> tr = map Start ps @ map Join ps
      \<and> (\<forall>p \<in> set ps. Start p \<in> set tr \<and> Join p \<in> set tr)
      \<and> (\<forall>i j. i < length tr \<and> j < length tr \<and> is_Start (tr ! i) \<and> is_Join (tr ! j)
            \<longrightarrow> i < j)"
proof -
  from build_processes_length [of project]
  obtain ps where ps: "build_processes project = Inr ps" "length ps = 14"
    by (elim exE conjE)
  let ?tr = "start_join_cell ps"
  have tr: "?tr = map Start ps @ map Join ps" by (rule start_join_cell_eq)
  have mt: "main_trace project = Inr ?tr"
    unfolding main_trace_def ps(1) by simp
  have mem: "\<forall>p \<in> set ps. Start p \<in> set ?tr \<and> Join p \<in> set ?tr"
    unfolding tr by simp
  have ord: "\<forall>i j. i < length ?tr \<and> j < length ?tr \<and> is_Start (?tr ! i) \<and> is_Join (?tr ! j)
      \<longrightarrow> i < j"
  proof (intro allI impI)
    fix i j
    assume a: "i < length ?tr \<and> j < length ?tr \<and> is_Start (?tr ! i) \<and> is_Join (?tr ! j)"
    have "i < length ps \<and> length ps \<le> j"
      by (rule start_before_join) (simp_all only: a)
    then show "i < j" by simp
  qed
  have "build_processes project = Inr ps \<and> main_trace project = Inr ?tr
      \<and> length ps = 14
      \<and> ?tr = map Start ps @ map Join ps
      \<and> (\<forall>p \<in> set ps. Start p \<in> set ?tr \<and> Join p \<in> set ?tr)
      \<and> (\<forall>i j. i < length ?tr \<and> j < length ?tr \<and> is_Start (?tr ! i) \<and> is_Join (?tr ! j)
            \<longrightarrow> i < j)"
    using ps mt tr mem ord by (intro conjI)
  then show ?thesis by (intro exI)
qed

theorem all_started_before_any_joined_witness:
  "\<exists>ps tr. build_processes () = Inr ps \<and> main_trace () = Inr tr
      \<and> ps ! 13 \<in> set ps \<and> Start (ps ! 13) \<in> set tr \<and> Join (ps ! 13) \<in> set tr
      \<and> 13 < length tr \<and> 14 < length tr \<and> is_Start (tr ! 13) \<and> is_Join (tr ! 14)
      \<and> (13::nat) < 14"
proof -
  from all_started_before_any_joined [of "()"]
  obtain ps tr where h: "build_processes () = Inr ps" "main_trace () = Inr tr"
      "length ps = 14" "tr = map Start ps @ map Join ps"
      "\<forall>p \<in> set ps. Start p \<in> set tr \<and> Join p \<in> set tr"
      "\<forall>i j. i < length tr \<and> j < length tr \<and> is_Start (tr ! i) \<and> is_Join (tr ! j) \<longrightarrow> i < j"
    by (elim exE conjE)
  have m: "ps ! 13 \<in> set ps" using h(3) by simp
  have sj: "Start (ps ! 13) \<in> set tr \<and> Join (ps ! 13) \<in> set tr" using h(5) m by (rule bspec)
  have len: "13 < length tr \<and> 14 < length tr" using h(3) by (simp add: h(4))
  have st: "is_Start (tr ! 13) \<and> is_Join (tr ! 14)"
    using h(3) by (simp add: h(4) nth_append)
  have lt: "(13::nat) < 14" using h(6) len st by simp
  have "build_processes () = Inr ps \<and> main_trace () = Inr tr
      \<and> ps ! 13 \<in> set ps \<and> Start (ps ! 13) \<in> set tr \<and> Join (ps ! 13) \<in> set tr
      \<and> 13 < length tr \<and> 14 < length tr \<and> is_Start (tr ! 13) \<and> is_Join (tr ! 14)
      \<and> (13::nat) < 14"
    using h(1,2) m sj len st lt by simp
  then show ?thesis by (intro exI)
qed

subsection \<open>Comparing a binary64 value with the literal \<open>.9\<close>\<close>

text \<open>
  The literal lies above nine tenths, and no binary64 value lies between the two: a
  value with a 53-bit mantissa that is at least one half is a multiple of \<open>2 ^ - 53\<close>.
  So comparing a binary64 value with the literal is comparing its exact value with 9/10.
\<close>

lemma float_val_scaled:
  assumes "- 53 \<le> e"
  shows "float_val m e = of_int (m * 2 ^ nat (e + 53)) / 2 ^ 53"
proof (cases "0 \<le> e")
  case True
  then have "nat (e + 53) = nat e + 53" by simp
  then show ?thesis using True by (simp add: float_val_def power_add)
next
  case False
  define a :: rat where "a = 2 ^ nat (e + 53)"
  define b :: rat where "b = 2 ^ nat (- e)"
  have "nat (e + 53) + nat (- e) = 53" using False assms by simp
  then have p: "(2::rat) ^ 53 = a * b"
    unfolding a_def b_def by (simp only: flip: power_add)
  have a0: "a \<noteq> 0" by (simp add: a_def)
  have "of_int m / b = (of_int m * a) / (a * b)" using a0 by simp
  then have "of_int m / b = of_int (m * 2 ^ nat (e + 53)) / 2 ^ 53"
    unfolding p by (simp add: a_def)
  then show ?thesis using False by (simp add: float_val_def b_def)
qed

lemma float_val_small:
  assumes "\<bar>m\<bar> < 2 ^ 53" and "e < - 53"
  shows "float_val m e < 1 / 2"
proof -
  have "54 \<le> nat (- e)" using assms(2) by simp
  then have "(2::rat) ^ 54 \<le> 2 ^ nat (- e)" by (intro power_increasing) simp_all
  moreover have "(of_int m :: rat) < 2 ^ 53"
  proof -
    have "m < 2 ^ 53" using assms(1) by simp
    then have "(of_int m :: rat) < of_int (2 ^ 53)" by (simp only: of_int_less_iff)
    then show ?thesis by simp
  qed
  ultimately have "(of_int m :: rat) * 2 < 2 ^ nat (- e)" by simp
  then have "(of_int m :: rat) / 2 ^ nat (- e) < 1 / 2"
    by (simp add: divide_simps)
  then show ?thesis using assms(2) by (simp add: float_val_def)
qed

lemma scaled_ge_iff:
  fixes j :: int
  shows "((8106479329266893::rat) / 2 ^ 53 \<le> of_int j / 2 ^ 53) = ((9::rat) / 10 \<le> of_int j / 2 ^ 53)"
proof -
  have a: "((8106479329266893::rat) / 2 ^ 53 \<le> of_int j / 2 ^ 53) = (8106479329266893 \<le> j)"
  proof -
    have "((8106479329266893::rat) / 2 ^ 53 \<le> of_int j / 2 ^ 53) = ((of_int 8106479329266893 :: rat) \<le> of_int j)"
      by (simp add: divide_le_cancel)
    then show ?thesis by (simp only: of_int_le_iff)
  qed
  have b: "((9::rat) / 10 \<le> of_int j / 2 ^ 53) = (81064793292668928 \<le> 10 * j)"
  proof -
    have "((9::rat) / 10 \<le> of_int j / 2 ^ 53) = ((of_int 81064793292668928 :: rat) \<le> of_int (10 * j))"
      by (simp add: divide_simps mult.commute)
    then show ?thesis by (simp only: of_int_le_iff)
  qed
  show ?thesis unfolding a b by presburger
qed

lemma ge_point_nine_iff:
  assumes "\<bar>m\<bar> < 2 ^ 53"
  shows "(float_val 8106479329266893 (- 53) \<le> float_val m e) = (9 / 10 \<le> float_val m e)"
proof (cases "- 53 \<le> e")
  case True
  have t: "float_val 8106479329266893 (- 53) = 8106479329266893 / 2 ^ 53"
    by (simp add: float_val_def)
  show ?thesis unfolding t float_val_scaled [OF True] by (rule scaled_ge_iff)
next
  case False
  then have "float_val m e < 1 / 2" using assms by (intro float_val_small) simp_all
  moreover have "(1::rat) / 2 < float_val 8106479329266893 (- 53)"
    by (simp add: float_val_def)
  ultimately show ?thesis by simp
qed

subsection \<open>The calls of \<open>run_experiment\<close>\<close>

lemma run_experiment_fitted:
  assumes "fit ext (classifier_of b n) = Inr fitted"
  shows "run_experiment ext project b n =
     \<lparr>calls =
        [LogExperiment project ''GaussianNB'',
         LogParameter (log_experiment ext project ''GaussianNB'') ''is_standardized'' (PBool b),
         LogParameter (log_experiment ext project ''GaussianNB'') ''n_components'' (PInt n)] @
        map (LogFeature (log_experiment ext project ''GaussianNB'')) (feature_names ext) @
        [LogMetric (log_experiment ext project ''GaussianNB'') ''accuracy''
           (accuracy_score ext (predict ext fitted)),
         LogDataframe (log_experiment ext project ''GaussianNB'')
           (crosstab ext (predict ext fitted)) [''confusion matrix''],
         AddTags (log_experiment ext project ''GaussianNB'')
           [if float_ge (accuracy_score ext (predict ext fitted)) point_nine
            then ''success'' else ''failure'']],
      raised = None\<rparr>"
  using assms
  by (simp add: run_experiment_def classifier_of_def Let_def foldl_snoc_map)

lemma run_experiment_fit_raises:
  assumes "fit ext (classifier_of b n) = Inl err"
  shows "run_experiment ext project b n =
     \<lparr>calls =
        [LogExperiment project ''GaussianNB'',
         LogParameter (log_experiment ext project ''GaussianNB'') ''is_standardized'' (PBool b),
         LogParameter (log_experiment ext project ''GaussianNB'') ''n_components'' (PInt n)] @
        map (LogFeature (log_experiment ext project ''GaussianNB'')) (feature_names ext),
      raised = Some err\<rparr>"
  using assms
  by (simp add: run_experiment_def classifier_of_def Let_def foldl_snoc_map)

lemma map_LogFeature_simps:
  "filter is_LogExperiment (map (LogFeature x) ns) = []"
  "filter is_LogParameter (map (LogFeature x) ns) = []"
  "filter is_LogFeature (map (LogFeature x) ns) = map (LogFeature x) ns"
  "filter is_LogMetric (map (LogFeature x) ns) = []"
  "filter is_LogDataframe (map (LogFeature x) ns) = []"
  "filter is_AddTags (map (LogFeature x) ns) = []"
  "concat (map tags_of (map (LogFeature x) ns)) = []"
  "set (concat (map written_to (map (LogFeature x) ns))) \<subseteq> {x}"
  by (induction ns) simp_all

lemma accuracy_of_Inr:
  "accuracy_of ext b n = Inr acc \<longleftrightarrow>
     (\<exists>fitted. fit ext (classifier_of b n) = Inr fitted
        \<and> acc = accuracy_score ext (predict ext fitted))"
  by (auto simp add: accuracy_of_def split: sum.splits)

lemma accuracy_of_Inl:
  "accuracy_of ext b n = Inl err \<longleftrightarrow> fit ext (classifier_of b n) = Inl err"
  by (auto simp add: accuracy_of_def split: sum.splits)

text \<open>
  C1: after the accuracy is computed, \<open>run_experiment\<close> adds exactly one tag, in one
  \<open>add_tags\<close> call, and returns: the tag is \<open>success\<close> if and only if \<open>accuracy >= .9\<close>
  holds for Python's float comparison, and \<open>failure\<close> otherwise (also when the accuracy
  is NaN). For a finite binary64 accuracy the comparison with the literal is the
  comparison of its exact value with nine tenths. An invocation that computes no
  accuracy, because \<open>fit\<close> raised, adds no tag.
\<close>

theorem run_experiment_tags_success_iff:
  "(accuracy_of ext b n = Inr acc \<longrightarrow>
       raised (run_experiment ext project b n) = None
     \<and> tags_added (calls (run_experiment ext project b n)) =
         [if float_ge acc point_nine then ''success'' else ''failure'']
     \<and> length (filter is_AddTags (calls (run_experiment ext project b n))) = 1
     \<and> (''success'' \<in> set (tags_added (calls (run_experiment ext project b n)))
          \<longleftrightarrow> float_ge acc point_nine)
     \<and> (''failure'' \<in> set (tags_added (calls (run_experiment ext project b n)))
          \<longleftrightarrow> \<not> float_ge acc point_nine)
     \<and> (\<forall>m e. acc = Finite m e \<and> is_binary64 m e \<longrightarrow>
          (''success'' \<in> set (tags_added (calls (run_experiment ext project b n)))
             \<longleftrightarrow> 9 / 10 \<le> float_val m e)))
   \<and> (accuracy_of ext b n = Inl err \<longrightarrow>
       raised (run_experiment ext project b n) = Some err
     \<and> tags_added (calls (run_experiment ext project b n)) = [])"
proof (intro conjI impI)
  assume "accuracy_of ext b n = Inl err"
  then have f: "fit ext (classifier_of b n) = Inl err" by (simp only: accuracy_of_Inl)
  show "raised (run_experiment ext project b n) = Some err"
    by (simp add: run_experiment_fit_raises [OF f])
  show "tags_added (calls (run_experiment ext project b n)) = []"
    by (simp add: run_experiment_fit_raises [OF f] tags_added_def map_LogFeature_simps)
next
  assume "accuracy_of ext b n = Inr acc"
  then obtain fitted where f: "fit ext (classifier_of b n) = Inr fitted"
    and acc: "acc = accuracy_score ext (predict ext fitted)"
    unfolding accuracy_of_Inr by (elim exE conjE)
  let ?r = "run_experiment ext project b n"
  show "raised ?r = None" by (simp add: run_experiment_fitted [OF f])
  show tags: "tags_added (calls ?r) = [if float_ge acc point_nine then ''success'' else ''failure'']"
    by (simp add: run_experiment_fitted [OF f] tags_added_def map_LogFeature_simps acc)
  show "length (filter is_AddTags (calls ?r)) = 1"
    by (simp add: run_experiment_fitted [OF f] map_LogFeature_simps)
  show "''success'' \<in> set (tags_added (calls ?r)) \<longleftrightarrow> float_ge acc point_nine"
    by (simp add: tags)
  show "''failure'' \<in> set (tags_added (calls ?r)) \<longleftrightarrow> \<not> float_ge acc point_nine"
    by (simp add: tags)
  show "\<forall>m e. acc = Finite m e \<and> is_binary64 m e \<longrightarrow>
      (''success'' \<in> set (tags_added (calls ?r)) \<longleftrightarrow> 9 / 10 \<le> float_val m e)"
  proof (intro allI impI)
    fix m e
    assume a: "acc = Finite m e \<and> is_binary64 m e"
    then have "\<bar>m\<bar> < 2 ^ 53" by (simp add: is_binary64_def)
    from ge_point_nine_iff [OF this, of e] a
    show "''success'' \<in> set (tags_added (calls ?r)) \<longleftrightarrow> 9 / 10 \<le> float_val m e"
      by (simp add: tags point_nine_def)
  qed
qed

theorem run_experiment_tags_success_iff_witness:
  "accuracy_of (wine_externals (Finite 15 (- 4))) True 3 = Inr (Finite 15 (- 4))
   \<and> is_binary64 15 (- 4)
   \<and> 9 / 10 \<le> float_val 15 (- 4)
   \<and> raised (run_experiment (wine_externals (Finite 15 (- 4))) () True 3) = None
   \<and> tags_added (calls (run_experiment (wine_externals (Finite 15 (- 4))) () True 3)) =
        [''success'']
   \<and> accuracy_of (wine_externals (Finite 7 (- 3))) False 13 = Inr (Finite 7 (- 3))
   \<and> tags_added (calls (run_experiment (wine_externals (Finite 7 (- 3))) () False 13)) =
        [''failure'']
   \<and> accuracy_of (wine_externals NaN) True 15 = Inl ValueError
   \<and> raised (run_experiment (wine_externals NaN) () True 15) = Some ValueError
   \<and> tags_added (calls (run_experiment (wine_externals NaN) () True 15)) = []"
proof -
  have h1: "accuracy_of (wine_externals (Finite 15 (- 4))) True 3 = Inr (Finite 15 (- 4))"
    by (simp add: accuracy_of_def wine_externals_def classifier_of_def make_pipeline_def)
  have h2: "accuracy_of (wine_externals (Finite 7 (- 3))) False 13 = Inr (Finite 7 (- 3))"
    by (simp add: accuracy_of_def wine_externals_def classifier_of_def make_pipeline_def)
  have h3: "accuracy_of (wine_externals NaN) True 15 = Inl ValueError"
    by (simp add: accuracy_of_def wine_externals_def classifier_of_def make_pipeline_def)
  have b: "is_binary64 15 (- 4)" by (simp add: is_binary64_def)
  have v: "(9::rat) / 10 \<le> float_val 15 (- 4)" "\<not> (9::rat) / 10 \<le> float_val 7 (- 3)"
    by (simp_all add: float_val_def)
  have g: "float_ge (Finite 15 (- 4)) point_nine" "\<not> float_ge (Finite 7 (- 3)) point_nine"
    by (simp_all add: point_nine_def float_val_def)
  from run_experiment_tags_success_iff
    [of "wine_externals (Finite 15 (- 4))" True 3 "Finite 15 (- 4)" "()" ValueError] h1 g
  have t1: "raised (run_experiment (wine_externals (Finite 15 (- 4))) () True 3) = None"
    "tags_added (calls (run_experiment (wine_externals (Finite 15 (- 4))) () True 3)) =
       [''success'']"
    by simp_all
  from run_experiment_tags_success_iff
    [of "wine_externals (Finite 7 (- 3))" False 13 "Finite 7 (- 3)" "()" ValueError] h2 g
  have t2: "tags_added (calls (run_experiment (wine_externals (Finite 7 (- 3))) () False 13)) =
       [''failure'']"
    by simp
  from run_experiment_tags_success_iff
    [of "wine_externals NaN" True 15 NaN "()" ValueError] h3
  have t3: "raised (run_experiment (wine_externals NaN) () True 15) = Some ValueError"
    "tags_added (calls (run_experiment (wine_externals NaN) () True 15)) = []"
    by simp_all
  from h1 h2 h3 b v(1) t1 t2 t3 show ?thesis by (intro conjI)
qed




subsection \<open>The catalog file\<close>

text \<open>
  C6: \<open>publish\<close> is called with \<open>output_filepath = "./wine_catalog.yml"\<close> and leaves the
  catalog in that one file, changing no other; \<open>open_catalog\<close> is later called with the
  same path, so what it reads is the catalog \<open>publish\<close> wrote.
\<close>

theorem catalog_round_trip:
  "consume_cell (publish_cell catalog fs) = Some catalog
   \<and> publish_cell catalog fs = fs(''./wine_catalog.yml'' \<mapsto> catalog)
   \<and> dom (publish_cell catalog fs) = insert ''./wine_catalog.yml'' (dom fs)
   \<and> open_catalog_path = publish_output_filepath
   \<and> publish_output_filepath = ''./wine_catalog.yml''"
  by (simp add: consume_cell_def publish_cell_def publish_def open_catalog_def shell_ls_def
      shell_cat_def publish_output_filepath_def open_catalog_path_def)

subsection \<open>The instantiations of the client\<close>

text \<open>
  C9: in every instantiation of the client in the two notebooks, \<open>persistence\<close> is
  \<open>"filesystem"\<close> or \<open>"memory"\<close>; \<open>root_dir\<close>, where given, is a local path or an
  \<open>s3://\<close> URI; and \<open>auto_git_enabled\<close>, where given, is a bool. The arguments, with
  variables resolved, are listed per instantiation.
\<close>

theorem rubicon_instantiations_conform:
  "(\<forall>inst \<in> set rubicon_instantiations.
       persistence_ok inst \<and> root_dir_ok inst \<and> auto_git_enabled_ok inst)
   \<and> map (\<lambda>inst. argument inst ''persistence'') rubicon_instantiations =
       [Some (Some (PStr ''filesystem'')), Some (Some (PStr ''filesystem'')),
        Some (Some (PStr ''memory'')), Some (Some (PStr ''filesystem''))]
   \<and> map (\<lambda>inst. argument inst ''root_dir'') rubicon_instantiations =
       [Some (Some (PStr ''./rubicon-root'')),
        Some (Some (PStr ''s3://my-bucket/path/to/rubicon-root'')),
        None,
        Some (Some (PStr ''s3://my-bucket/path/to/rubicon-root''))]
   \<and> map (\<lambda>inst. argument inst ''auto_git_enabled'') rubicon_instantiations =
       [None, None, Some (Some (PBool True)), None]"
  by (simp add: rubicon_instantiations_def quick_look_local_def quick_look_s3_def
      git_integration_memory_def quick_look_prose_def persistence_ok_def root_dir_ok_def
      auto_git_enabled_ok_def argument_def is_local_path_def is_s3_uri_def)

theorem rubicon_instantiations_conform_witness:
  "quick_look_local \<in> set rubicon_instantiations
   \<and> persistence_ok quick_look_local \<and> root_dir_ok quick_look_local
   \<and> auto_git_enabled_ok quick_look_local
   \<and> is_local_path ''./rubicon-root'' \<and> \<not> is_s3_uri ''./rubicon-root''
   \<and> git_integration_memory \<in> set rubicon_instantiations
   \<and> persistence_ok git_integration_memory \<and> root_dir_ok git_integration_memory
   \<and> auto_git_enabled_ok git_integration_memory"
proof -
  have m: "quick_look_local \<in> set rubicon_instantiations"
    "git_integration_memory \<in> set rubicon_instantiations"
    by (simp_all add: rubicon_instantiations_def)
  have a: "\<forall>inst \<in> set rubicon_instantiations.
       persistence_ok inst \<and> root_dir_ok inst \<and> auto_git_enabled_ok inst"
    using rubicon_instantiations_conform by (elim conjE)
  have p: "is_local_path ''./rubicon-root'' \<and> \<not> is_s3_uri ''./rubicon-root''"
    by (simp add: is_local_path_def is_s3_uri_def)
  from bspec [OF a m(1)] bspec [OF a m(2)] m p show ?thesis by simp
qed

subsection \<open>The documentation workflow\<close>

text \<open>
  C7: the workflow starts exactly on a \<open>release\<close> event of activity type \<open>created\<close> and
  on \<open>workflow_dispatch\<close>: these are the only two keys of \<open>on\<close>, no other event starts
  it, and its one job, \<open>build-and-deploy\<close>, is the job these events run.
\<close>

theorem publish_docs_triggers:
  "(triggered publish_docs ev activity \<longleftrightarrow>
      (ev = ''release'' \<and> activity = Some ''created'') \<or> ev = ''workflow_dispatch'')
   \<and> wf_on publish_docs = [(''release'', Some [''created'']), (''workflow_dispatch'', None)]
   \<and> map fst (jobs publish_docs) = [''build-and-deploy'']"
  by (auto simp add: triggered_def publish_docs_def split: option.splits)

text \<open>
  C8: in the job \<open>build-and-deploy\<close> the step named \<open>Build\<close> is the fifth of six steps;
  under \<open>bash\<close> it changes into \<open>docs\<close> and there runs \<open>bash build-docs.sh\<close>, and
  nothing else. The step right after it, the last, is named \<open>Publish\<close>: it uses the
  action \<open>JamesIves/github-pages-deploy-action\<close> with \<open>branch\<close> \<open>gh-pages\<close> and
  \<open>folder\<close> \<open>docs/build/html\<close>.
\<close>

theorem build_then_publish:
  "map_of (jobs publish_docs) ''build-and-deploy'' = Some build_and_deploy
   \<and> length (steps build_and_deploy) = 6
   \<and> step_index ''Build'' (steps build_and_deploy) = Some 4
   \<and> step_index ''Publish'' (steps build_and_deploy) = Some 5
   \<and> step_uses (steps build_and_deploy ! 4) = None
   \<and> step_shell (steps build_and_deploy ! 4) = Some ''bash''
   \<and> run_script (step_run (steps build_and_deploy ! 4)) =
        \<lparr>cwd = Some [''docs''],
         invoked = [(Some [''docs''], [''bash'', ''build-docs.sh''])]\<rparr>
   \<and> step_run (steps build_and_deploy ! 5) = []
   \<and> map_option action_name (step_uses (steps build_and_deploy ! 5)) =
        Some ''JamesIves/github-pages-deploy-action''
   \<and> step_with (steps build_and_deploy ! 5) =
        [(''branch'', ''gh-pages''), (''folder'', ''docs/build/html'')]"
  by (simp add: publish_docs_def build_and_deploy_def no_step_def action_name_def
      run_script_def exec_line_def words_def chdir_def)

end
